theory Spec2Isabelle
  imports Main "HOL-Library.AList"
begin

section \<open>JavaScript values\<close>

text \<open>
  The values a cached property, a stored value or a default can take: the scalars and
  plain objects (the spec's StoredValue: "scalar or object-shaped"). An object carries
  the address it lives at, so that "the same reference" and "a copy" are different
  things, and its own enumerable properties, each key once, in the order JavaScript
  enumerates them. The prototype is not part of a value: the objects given to the code
  are plain ones, with \<^verbatim>\<open>Object.prototype\<close> as their prototype, as object literals and the
  results of \<^verbatim>\<open>JSON.parse\<close> are; such an object can still have a property of its own
  named \<^verbatim>\<open>__proto__\<close> (\<^verbatim>\<open>JSON.parse\<close> creates one for that key). Arrays and other exotic
  objects are outside the model. Numbers are the integers and NaN: the code never
  computes with a number, it only asks for its type and whether it is falsy.
\<close>

type_synonym addr = nat

datatype jsval =
    JUndefined
  | JNull
  | JBool bool
  | JNum int
  | JNaN
  | JStr string
  | JObj addr "(string \<times> jsval) list"

datatype error = TypeError | SyntaxError

text \<open>\<^verbatim>\<open>typeof v\<close>.\<close>

fun js_typeof :: "jsval \<Rightarrow> string" where
  "js_typeof JUndefined = ''undefined''"
| "js_typeof JNull = ''object''"
| "js_typeof (JBool b) = ''boolean''"
| "js_typeof (JNum i) = ''number''"
| "js_typeof JNaN = ''number''"
| "js_typeof (JStr s) = ''string''"
| "js_typeof (JObj a ps) = ''object''"

text \<open>The truthiness test of \<^verbatim>\<open>if (v)\<close>, \<^verbatim>\<open>!v\<close> and \<^verbatim>\<open>a && b\<close>.\<close>

fun truthy :: "jsval \<Rightarrow> bool" where
  "truthy JUndefined = False"
| "truthy JNull = False"
| "truthy (JBool b) = b"
| "truthy (JNum i) = (i \<noteq> 0)"
| "truthy JNaN = False"
| "truthy (JStr s) = (s \<noteq> [])"
| "truthy (JObj a ps) = True"

text \<open>The addresses of all objects reachable in a value, and the value with every
  address forgotten: two values are deep-equal when they agree up to addresses.\<close>

fun addrs :: "jsval \<Rightarrow> addr set" and addrs_props :: "(string \<times> jsval) list \<Rightarrow> addr set" where
  "addrs (JObj a ps) = insert a (addrs_props ps)"
| "addrs JUndefined = {}"
| "addrs JNull = {}"
| "addrs (JBool b) = {}"
| "addrs (JNum i) = {}"
| "addrs JNaN = {}"
| "addrs (JStr s) = {}"
| "addrs_props [] = {}"
| "addrs_props (p # ps) = addrs (snd p) \<union> addrs_props ps"

fun erase :: "jsval \<Rightarrow> jsval" and erase_props :: "(string \<times> jsval) list \<Rightarrow> (string \<times> jsval) list" where
  "erase (JObj a ps) = JObj 0 (erase_props ps)"
| "erase JUndefined = JUndefined"
| "erase JNull = JNull"
| "erase (JBool b) = JBool b"
| "erase (JNum i) = JNum i"
| "erase JNaN = JNaN"
| "erase (JStr s) = JStr s"
| "erase_props [] = []"
| "erase_props (p # ps) = (fst p, erase (snd p)) # erase_props ps"

text \<open>A value without the properties named \<^verbatim>\<open>__proto__\<close>, at every depth.\<close>

fun strip_proto :: "jsval \<Rightarrow> jsval"
  and strip_proto_props :: "(string \<times> jsval) list \<Rightarrow> (string \<times> jsval) list" where
  "strip_proto (JObj a ps) = JObj a (strip_proto_props ps)"
| "strip_proto JUndefined = JUndefined"
| "strip_proto JNull = JNull"
| "strip_proto (JBool b) = JBool b"
| "strip_proto (JNum i) = JNum i"
| "strip_proto JNaN = JNaN"
| "strip_proto (JStr s) = JStr s"
| "strip_proto_props [] = []"
| "strip_proto_props (p # ps) =
     (if fst p = ''__proto__'' then strip_proto_props ps
      else (fst p, strip_proto (snd p)) # strip_proto_props ps)"

definition deep_equal :: "jsval \<Rightarrow> jsval \<Rightarrow> bool" where
  "deep_equal v w \<longleftrightarrow> erase v = erase w"

text \<open>Two values are the same reference when both are objects at one address
  (\<^verbatim>\<open>===\<close> on objects).\<close>

fun same_reference :: "jsval \<Rightarrow> jsval \<Rightarrow> bool" where
  "same_reference (JObj a ps) (JObj b qs) = (a = b)"
| "same_reference v w = False"

section \<open>lodash.clonedeep\<close>

text \<open>
  \<^verbatim>\<open>cloneDeep(value)\<close> is imported from lodash (lodash.clonedeep 4.5.0). A scalar is
  returned as it is; an object is rebuilt at a new address (the clone is created before
  its properties are populated): each property value is cloned in turn and assigned
  with \<^verbatim>\<open>result[key] = clone\<close>. For the key \<^verbatim>\<open>__proto__\<close> that assignment goes to the setter
  of \<^verbatim>\<open>Object.prototype\<close> and creates no property, so the clone has no property of that
  name (for a value that is an object or null the setter changes the prototype of the
  clone; the callers look at the own properties of the clone only). The second argument
  is the next unused address, returned advanced.
\<close>

fun cloneDeep :: "jsval \<Rightarrow> addr \<Rightarrow> jsval \<times> addr"
  and cloneProps :: "(string \<times> jsval) list \<Rightarrow> addr \<Rightarrow> (string \<times> jsval) list \<times> addr" where
  "cloneDeep (JObj a ps) n = (case cloneProps ps (Suc n) of (ps', n') \<Rightarrow> (JObj n ps', n'))"
| "cloneDeep JUndefined n = (JUndefined, n)"
| "cloneDeep JNull n = (JNull, n)"
| "cloneDeep (JBool b) n = (JBool b, n)"
| "cloneDeep (JNum i) n = (JNum i, n)"
| "cloneDeep JNaN n = (JNaN, n)"
| "cloneDeep (JStr s) n = (JStr s, n)"
| "cloneProps [] n = ([], n)"
| "cloneProps (p # ps) n =
     (case cloneDeep (snd p) n of (v', n1) \<Rightarrow>
      case cloneProps ps n1 of (ps', n2) \<Rightarrow>
        (if fst p = ''__proto__'' then ps' else (fst p, v') # ps', n2))"

section \<open>Own properties and \<^verbatim>\<open>delete\<close>\<close>

text \<open>Decimal numerals, for the index properties \<^verbatim>\<open>"0"\<close>, \<^verbatim>\<open>"1"\<close>, ... of a string.\<close>

definition digit_char :: "nat \<Rightarrow> char" where
  "digit_char d = ''0123456789'' ! d"

function string_of_nat :: "nat \<Rightarrow> string" where
  "string_of_nat n =
     (if n < 10 then [digit_char n]
      else string_of_nat (n div 10) @ [digit_char (n mod 10)])"
  by pat_completeness auto
termination
  by (relation "measure id") simp_all

declare string_of_nat.simps [simp del]

text \<open>
  \<^verbatim>\<open>Object.getOwnPropertyNames(v)\<close> for a value that is neither null nor undefined (the
  callers test truthiness first). A string has its index properties and \<^verbatim>\<open>length\<close>;
  numbers and booleans have none.
\<close>

fun getOwnPropertyNames :: "jsval \<Rightarrow> error + string list" where
  "getOwnPropertyNames (JObj a ps) = Inr (map fst ps)"
| "getOwnPropertyNames (JStr s) = Inr (map string_of_nat [0..<length s] @ [''length''])"
| "getOwnPropertyNames (JBool b) = Inr []"
| "getOwnPropertyNames (JNum i) = Inr []"
| "getOwnPropertyNames JNaN = Inr []"
| "getOwnPropertyNames JUndefined = Inl TypeError"
| "getOwnPropertyNames JNull = Inl TypeError"

text \<open>
  \<^verbatim>\<open>delete v[k]\<close>. The source is an ES module, hence strict-mode code: deleting a
  property that is not configurable raises a TypeError. The properties of a plain object
  are configurable; the index properties and the \<^verbatim>\<open>length\<close> of a string are not.
  Deleting a property that does not exist succeeds and changes nothing.
\<close>

fun delete_prop :: "jsval \<Rightarrow> string \<Rightarrow> error + jsval" where
  "delete_prop (JObj a ps) k = Inr (JObj a (AList.delete k ps))"
| "delete_prop (JStr s) k =
     (if k \<in> set (map string_of_nat [0..<length s]) \<or> k = ''length'' then Inl TypeError
      else Inr (JStr s))"
| "delete_prop (JBool b) k = Inr (JBool b)"
| "delete_prop (JNum i) k = Inr (JNum i)"
| "delete_prop JNaN k = Inr JNaN"
| "delete_prop JUndefined k = Inl TypeError"
| "delete_prop JNull k = Inl TypeError"

section \<open>Assigning a property\<close>

definition is_digit :: "char \<Rightarrow> bool" where
  "is_digit c \<longleftrightarrow> c \<in> set ''0123456789''"

text \<open>The value of a decimal digit is its place in \<^verbatim>\<open>0123456789\<close>.\<close>

definition digit_value :: "char \<Rightarrow> int" where
  "digit_value c = int (length (takeWhile (\<lambda>d. d \<noteq> c) ''0123456789''))"

definition index_value :: "string \<Rightarrow> int" where
  "index_value s = foldl (\<lambda>n c. 10 * n + digit_value c) 0 s"

text \<open>
  An array index: the canonical decimal numeral of a number below \<open>2\<^sup>3\<^sup>2 - 1\<close>. The own
  property keys of an object are enumerated with the array indices first, in ascending
  order, then the other strings in the order they were created.
\<close>

definition is_array_index :: "string \<Rightarrow> bool" where
  "is_array_index k \<longleftrightarrow>
     k \<noteq> [] \<and> list_all is_digit k \<and> (length k = 1 \<or> hd k \<noteq> CHR ''0'')
     \<and> index_value k < 4294967295"

fun insert_index :: "string \<Rightarrow> jsval \<Rightarrow> (string \<times> jsval) list \<Rightarrow> (string \<times> jsval) list" where
  "insert_index k v [] = [(k, v)]"
| "insert_index k v (p # ps) =
     (if is_array_index (fst p) \<and> index_value (fst p) < index_value k
      then p # insert_index k v ps
      else (k, v) # p # ps)"

text \<open>Creating or updating a data property of an object's own: an existing property
  keeps its place, a new array index goes among the indices, any other new key last.\<close>

definition put_prop :: "string \<Rightarrow> jsval \<Rightarrow> (string \<times> jsval) list \<Rightarrow> (string \<times> jsval) list" where
  "put_prop k v ps =
     (if k \<in> set (map fst ps) then AList.update k v ps
      else if is_array_index k then insert_index k v ps
      else ps @ [(k, v)])"

text \<open>
  The prototype of an object the code is building: \<^verbatim>\<open>Object.prototype\<close>, as for \<^verbatim>\<open>{}\<close>;
  null; or a plain object, given by its own properties, which are data properties as
  those of a parsed object are.
\<close>

datatype prototype =
    ObjectPrototype
  | NullPrototype
  | ValuePrototype "(string \<times> jsval) list"

text \<open>Whether an assignment to \<^verbatim>\<open>__proto__\<close> on an object with this prototype, and
  without a property of that name of its own, reaches the setter of
  \<^verbatim>\<open>Object.prototype\<close>: not when the chain ends before it, nor when an object on the
  chain has a data property of that name.\<close>

fun reaches_proto_setter :: "prototype \<Rightarrow> bool" where
  "reaches_proto_setter ObjectPrototype = True"
| "reaches_proto_setter NullPrototype = False"
| "reaches_proto_setter (ValuePrototype qs) = (''__proto__'' \<notin> set (map fst qs))"

text \<open>
  \<^verbatim>\<open>target[k] = v\<close> on an object under construction, given by its prototype and its own
  properties. For \<^verbatim>\<open>__proto__\<close> reaching the setter, no property is created: the setter
  changes the prototype when \<open>v\<close> is an object or null and does nothing otherwise.
\<close>

fun assign_prop :: "string \<Rightarrow> jsval \<Rightarrow> prototype \<times> (string \<times> jsval) list
    \<Rightarrow> prototype \<times> (string \<times> jsval) list" where
  "assign_prop k v (pr, ps) =
     (if k = ''__proto__'' \<and> k \<notin> set (map fst ps) \<and> reaches_proto_setter pr then
        (case v of
           JObj a qs \<Rightarrow> (ValuePrototype qs, ps)
         | JNull \<Rightarrow> (NullPrototype, ps)
         | _ \<Rightarrow> (pr, ps))
      else (pr, put_prop k v ps))"

section \<open>The value filter: purgeExceptList and purgeOnlyList\<close>

text \<open>The \<^verbatim>\<open>except\<close> and \<^verbatim>\<open>only\<close> options: \<^verbatim>\<open>string | string[]\<close>, optional. A single
  name is truthy when it is not empty, an array always.\<close>

datatype names = Single string | Many "string list"

fun names_truthy :: "names option \<Rightarrow> bool" where
  "names_truthy None = False"
| "names_truthy (Some (Single s)) = (s \<noteq> [])"
| "names_truthy (Some (Many ss)) = True"


text \<open>\<^verbatim>\<open>for (const e of except) delete newValue[e]\<close>: stops at the first error.\<close>

fun delete_each :: "string list \<Rightarrow> jsval \<Rightarrow> error + jsval" where
  "delete_each [] v = Inr v"
| "delete_each (e # es) v =
     (case delete_prop v e of Inl err \<Rightarrow> Inl err | Inr v' \<Rightarrow> delete_each es v')"

definition purgeExceptList :: "jsval \<Rightarrow> names option \<Rightarrow> addr \<Rightarrow> error + (jsval \<times> addr)" where
  "purgeExceptList value except n =
     (case cloneDeep value n of (newValue, n') \<Rightarrow>
        if names_truthy except \<and> truthy newValue then
          (case except of
             Some (Many es) \<Rightarrow>
               (case delete_each es newValue of Inl err \<Rightarrow> Inl err | Inr v \<Rightarrow> Inr (v, n'))
           | Some (Single e) \<Rightarrow>
               (case delete_prop newValue e of Inl err \<Rightarrow> Inl err | Inr v \<Rightarrow> Inr (v, n'))
           | None \<Rightarrow> Inr (newValue, n'))
        else Inr (newValue, n'))"

text \<open>\<^verbatim>\<open>props.forEach(p => { if (c(p)) delete newValue[p] })\<close>.\<close>

fun delete_where :: "(string \<Rightarrow> bool) \<Rightarrow> string list \<Rightarrow> jsval \<Rightarrow> error + jsval" where
  "delete_where c [] v = Inr v"
| "delete_where c (p # ps) v =
     (if c p then
        (case delete_prop v p of Inl err \<Rightarrow> Inl err | Inr v' \<Rightarrow> delete_where c ps v')
      else delete_where c ps v)"

text \<open>\<^verbatim>\<open>!only.find(o => o === p)\<close>: \<^verbatim>\<open>find\<close> returns the element found, a string, which
  is negated as a truth value, so a listed empty name counts as not found.\<close>

definition not_listed :: "string list \<Rightarrow> string \<Rightarrow> bool" where
  "not_listed only p =
     (case List.find (\<lambda>o'. o' = p) only of None \<Rightarrow> True | Some o' \<Rightarrow> o' = [])"

definition purgeOnlyList :: "jsval \<Rightarrow> names option \<Rightarrow> addr \<Rightarrow> error + (jsval \<times> addr)" where
  "purgeOnlyList value only n =
     (case cloneDeep value n of (newValue, n') \<Rightarrow>
        if names_truthy only \<and> truthy newValue then
          (case getOwnPropertyNames newValue of
             Inl err \<Rightarrow> Inl err
           | Inr props \<Rightarrow>
               (case only of
                  Some (Many os) \<Rightarrow>
                    (case delete_where (not_listed os) props newValue of
                       Inl err \<Rightarrow> Inl err | Inr v \<Rightarrow> Inr (v, n'))
                | Some (Single o') \<Rightarrow>
                    (case delete_where (\<lambda>p. p \<noteq> o') props newValue of
                       Inl err \<Rightarrow> Inl err | Inr v \<Rightarrow> Inr (v, n'))
                | None \<Rightarrow> Inr (newValue, n')))
        else Inr (newValue, n'))"

section \<open>Options, console and component state\<close>

text \<open>A \<^verbatim>\<open>Storage\<close> passed as \<^verbatim>\<open>cacheStore\<close>: whether it has the two functions the code
  looks for, and the items it holds.\<close>

record storage =
  has_getItem :: bool
  has_setItem :: bool
  items :: "string \<rightharpoonup> string"

text \<open>
  The argument of \<^verbatim>\<open>Cache\<close>: the fields of \<^verbatim>\<open>CacheOptions\<close>, \<^verbatim>\<open>CacheOptionsWithExcept\<close>
  and \<^verbatim>\<open>CacheOptionsWithOnly\<close>, each optional. The README's option table lists one more
  option, \<^verbatim>\<open>deep\<close> (boolean, default true); no type of the source declares it and no
  line reads it. It is kept here as \<open>readme_deep\<close> so that a caller passing it can be
  written down.
\<close>

record cacheOptions =
  globalDispatch :: "string option"
  cacheKey :: "string option"
  cacheStore :: "storage option"
  except :: "names option"
  only :: "names option"
  readme_deep :: "bool option"

text \<open>
  What the code writes to the console:
  \<^item> \<open>Warn_tag_null\<close>: \<^verbatim>\<open>console.warn("@Cache: vm.$vnode.tag was null")\<close>;
  \<^item> \<open>Warn_not_property key\<close>: the warning that the decorator only applies to class
    properties;
  \<^item> \<open>Warn_no_value key\<close>: the warning that the property has no value and is saved as an
    empty object;
  \<^item> \<open>Error_mutually_exclusive\<close>: \<^verbatim>\<open>console.error\<close> that except and only are mutually
    exclusive;
  \<^item> \<open>Error_cacheStore\<close>: \<^verbatim>\<open>console.error\<close> that cacheStore must have getItem and setItem.
\<close>

datatype console_message =
    Warn_tag_null
  | Warn_not_property string
  | Warn_no_value string
  | Error_mutually_exclusive
  | Error_cacheStore

text \<open>
  The component instance \<^verbatim>\<open>this\<close> with the parts of the environment the code touches:
  \<^verbatim>\<open>vm.$vnode\<close>, which is undefined on a root instance, with its \<^verbatim>\<open>tag\<close>, which is optional;
  the data properties the instance has; the calls of \<^verbatim>\<open>$set\<close> made so far; the console;
  \<^verbatim>\<open>window.localStorage\<close>; and the next unused address.
\<close>

datatype vnode = VNode (tag: "string option")

record state =
  vnode :: "vnode option"
  data :: "string \<rightharpoonup> jsval"
  set_calls :: "(string \<times> jsval) list"
  console :: "console_message list"
  localStorage :: "string \<rightharpoonup> string"
  next_addr :: addr

text \<open>\<^verbatim>\<open>this[key]\<close>: undefined for a property the instance does not have.\<close>

definition get_field :: "state \<Rightarrow> string \<Rightarrow> jsval" where
  "get_field this key = (case data this key of None \<Rightarrow> JUndefined | Some v \<Rightarrow> v)"

text \<open>
  \<^verbatim>\<open>this.$set(this, key, v)\<close> is Vue's \<^verbatim>\<open>set\<close> with the instance as target: it assigns when
  \<^verbatim>\<open>key in target && !(key in Object.prototype)\<close>, and otherwise, the target being a Vue
  instance, adds nothing and returns. A property is in the instance when it is declared
  data; a class property whose initial value is undefined is not. Every call is
  recorded.
\<close>

definition object_prototype_keys :: "string list" where
  "object_prototype_keys =
     [''constructor'', ''__defineGetter__'', ''__defineSetter__'', ''hasOwnProperty'',
      ''__lookupGetter__'', ''__lookupSetter__'', ''isPrototypeOf'', ''propertyIsEnumerable'',
      ''toString'', ''valueOf'', ''__proto__'', ''toLocaleString'']"

definition declared :: "state \<Rightarrow> string \<Rightarrow> bool" where
  "declared this key \<longleftrightarrow> data this key \<noteq> None \<and> key \<notin> set object_prototype_keys"

definition set_field :: "state \<Rightarrow> string \<Rightarrow> jsval \<Rightarrow> state" where
  "set_field this key v =
     (if declared this key
      then this\<lparr>data := (data this)(key \<mapsto> v), set_calls := set_calls this @ [(key, v)]\<rparr>
      else this\<lparr>set_calls := set_calls this @ [(key, v)]\<rparr>)"

section \<open>makeKey\<close>

fun strip_string_prefix :: "string \<Rightarrow> string \<Rightarrow> string option" where
  "strip_string_prefix [] s = Some s"
| "strip_string_prefix (p # ps) [] = None"
| "strip_string_prefix (p # ps) (c # cs) = (if p = c then strip_string_prefix ps cs else None)"

text \<open>A match of \<^verbatim>\<open>/vue-component-\d+-/\<close> at the start of \<open>s\<close>: what follows the match.
  The digits are taken greedily and must be followed by a dash.\<close>

definition match_at_start :: "string \<Rightarrow> string option" where
  "match_at_start s =
     (case strip_string_prefix ''vue-component-'' s of
        None \<Rightarrow> None
      | Some t \<Rightarrow>
          (case dropWhile is_digit t of
             [] \<Rightarrow> None
           | c # rest \<Rightarrow>
               if takeWhile is_digit t \<noteq> [] \<and> c = CHR ''-'' then Some rest else None))"

text \<open>\<^verbatim>\<open>tag.replace(/vue-component-\d+-/, "")\<close>: the regular expression is not anchored
  and not global, so the leftmost match, wherever it starts, is removed.\<close>

fun tag_replace :: "string \<Rightarrow> string" where
  "tag_replace [] = []"
| "tag_replace (c # cs) =
     (case match_at_start (c # cs) of Some rest \<Rightarrow> rest | None \<Rightarrow> c # tag_replace cs)"

text \<open>\<^verbatim>\<open>options?.cacheKey\<close> as the condition of an \<^verbatim>\<open>if\<close>: a configured key that is not
  the empty string.\<close>

fun truthy_cacheKey :: "cacheOptions option \<Rightarrow> string option" where
  "truthy_cacheKey None = None"
| "truthy_cacheKey (Some options) =
     (case cacheKey options of None \<Rightarrow> None | Some k \<Rightarrow> if k = [] then None else Some k)"

text \<open>Reading \<^verbatim>\<open>vm.$vnode.tag\<close> when \<^verbatim>\<open>vm.$vnode\<close> is undefined raises a TypeError.\<close>

definition makeKey ::
  "state \<Rightarrow> string \<Rightarrow> cacheOptions option \<Rightarrow> error + (string \<times> console_message list)" where
  "makeKey vm key options =
     (case truthy_cacheKey options of
        Some k \<Rightarrow> Inr (k, [])
      | None \<Rightarrow>
          (case vnode vm of
             None \<Rightarrow> Inl TypeError
           | Some node \<Rightarrow>
               (case tag node of
                  None \<Rightarrow> Inr (key, [Warn_tag_null])
                | Some t \<Rightarrow>
                    if t = [] then Inr (key, [Warn_tag_null])
                    else
                      let name = tag_replace t;
                          name = (if length name = 0 then t else name)
                      in Inr (name @ ''['' @ key @ '']'', []))))"

section \<open>merge\<close>

text \<open>The own enumerable properties \<^verbatim>\<open>Object.assign\<close> copies from a source: those of an
  object; the characters of a string under their indices; none for the other scalars
  (null and undefined sources are skipped).\<close>

fun own_enumerable :: "jsval \<Rightarrow> (string \<times> jsval) list" where
  "own_enumerable (JObj a ps) = ps"
| "own_enumerable (JStr s) = map (\<lambda>i. (string_of_nat i, JStr [s ! i])) [0..<length s]"
| "own_enumerable JUndefined = []"
| "own_enumerable JNull = []"
| "own_enumerable (JBool b) = []"
| "own_enumerable (JNum i) = []"
| "own_enumerable JNaN = []"

text \<open>\<^verbatim>\<open>Object.assign(target, source)\<close>: each own enumerable property of the source is
  assigned to the target in turn, with \<^verbatim>\<open>target[k] = v\<close>.\<close>

definition object_assign ::
  "prototype \<times> (string \<times> jsval) list \<Rightarrow> jsval \<Rightarrow> prototype \<times> (string \<times> jsval) list" where
  "object_assign target source =
     fold (\<lambda>p t. assign_prop (fst p) (snd p) t) (own_enumerable source) target"

text \<open>\<^verbatim>\<open>merge(a, b) = Object.assign(Object.assign({}, a), b)\<close>; the \<^verbatim>\<open>{}\<close> is a new object. The
  result is given by its own properties.\<close>

definition merge :: "jsval \<Rightarrow> jsval \<Rightarrow> addr \<Rightarrow> jsval \<times> addr" where
  "merge a b n =
     (JObj n (snd (object_assign (object_assign (ObjectPrototype, []) a) b)), Suc n)"

definition simpleTypes :: "string list" where
  "simpleTypes = [''undefined'', ''number'', ''string'', ''boolean'']"

section \<open>The created hook\<close>

text \<open>
  \<^verbatim>\<open>JSON.parse\<close> is the platform's; it is a parameter here: given a text and the next
  unused address it returns the value with the address advanced, or nothing when it
  throws a SyntaxError. \<^verbatim>\<open>store.getItem(k)\<close> is read from \<^verbatim>\<open>window.localStorage\<close> unless a
  \<^verbatim>\<open>cacheStore\<close> is configured; calling a missing \<^verbatim>\<open>getItem\<close> is a TypeError.
\<close>

type_synonym json_parse = "string \<Rightarrow> addr \<Rightarrow> (jsval \<times> addr) option"

fun configured_store :: "cacheOptions option \<Rightarrow> storage option" where
  "configured_store None = None"
| "configured_store (Some options) = cacheStore options"

definition getItem :: "state \<Rightarrow> cacheOptions option \<Rightarrow> string \<Rightarrow> error + string option" where
  "getItem this cacheOptions k =
     (case configured_store cacheOptions of
        None \<Rightarrow> Inr (localStorage this k)
      | Some store \<Rightarrow> if has_getItem store then Inr (items store k) else Inl TypeError)"

text \<open>
  Lines 140 to 151 of the hook: resolve the key, read, parse, choose between replacing
  and merging, set. \<^verbatim>\<open>JSON.parse(null)\<close> parses the text \<^verbatim>\<open>null\<close>. A raised error comes with
  the state at the moment it is raised.
\<close>

type_synonym hook = "state \<Rightarrow> (error \<times> state) + state"

definition restore_step :: "json_parse \<Rightarrow> cacheOptions option \<Rightarrow> string \<Rightarrow> hook" where
  "restore_step JSON_parse cacheOptions key this =
     (let currentValue = get_field this key in
      case makeKey this key cacheOptions of
        Inl err \<Rightarrow> Inl (err, this)
      | Inr (k, msgs) \<Rightarrow>
          let this1 = this\<lparr>console := console this @ msgs\<rparr> in
          (case getItem this1 cacheOptions k of
             Inl err \<Rightarrow> Inl (err, this1)
           | Inr raw \<Rightarrow>
               (case JSON_parse (case raw of None \<Rightarrow> ''null'' | Some text \<Rightarrow> text)
                       (next_addr this1) of
                  None \<Rightarrow> Inl (SyntaxError, this1)
                | Some (parsed, n1) \<Rightarrow>
                    let v = (if parsed = JNull \<or> parsed = JUndefined then currentValue
                             else parsed);
                        this2 = this1\<lparr>next_addr := n1\<rparr>
                    in
                    if js_typeof currentValue \<in> set simpleTypes \<or> v = JNull then
                      Inr (set_field this2 key v)
                    else
                      let this3 =
                            (if \<not> truthy currentValue then
                               set_field
                                 (this2\<lparr>console := console this2 @ [Warn_no_value key],
                                        next_addr := Suc n1\<rparr>)
                                 key (JObj n1 [])
                             else this2)
                      in
                      case merge currentValue v (next_addr this3) of
                        (merged, n2) \<Rightarrow>
                          Inr (set_field (this3\<lparr>next_addr := n2\<rparr>) key merged))))"

text \<open>The function assigned to \<^verbatim>\<open>options.created\<close>: the restore, then the hook that was
  there before, if any.\<close>

definition created_hook :: "json_parse \<Rightarrow> cacheOptions option \<Rightarrow> string \<Rightarrow> hook option \<Rightarrow> hook" where
  "created_hook JSON_parse cacheOptions key old this =
     (case restore_step JSON_parse cacheOptions key this of
        Inl thrown \<Rightarrow> Inl thrown
      | Inr this' \<Rightarrow> (case old of None \<Rightarrow> Inr this' | Some old_hook \<Rightarrow> old_hook this'))"

section \<open>The decorator\<close>

text \<open>The closure \<^verbatim>\<open>modifier\<close> chosen at lines 103 to 113, and its application.\<close>

datatype modifier = PurgeExcept "names option" | PurgeOnly "names option" | Identity

fun apply_modifier :: "modifier \<Rightarrow> jsval \<Rightarrow> addr \<Rightarrow> error + (jsval \<times> addr)" where
  "apply_modifier (PurgeExcept e) v n = purgeExceptList v e n"
| "apply_modifier (PurgeOnly e) v n = purgeOnlyList v e n"
| "apply_modifier Identity v n = Inr (v, n)"

fun select_modifier :: "cacheOptions option \<Rightarrow> modifier \<times> console_message list" where
  "select_modifier None = (Identity, [])"
| "select_modifier (Some options) =
     ((if names_truthy (except options) then PurgeExcept (except options)
       else if names_truthy (only options) then PurgeOnly (only options)
       else Identity),
      (if names_truthy (except options) \<and> names_truthy (only options)
       then [Error_mutually_exclusive] else []))"

text \<open>Lines 114 to 122: the store is chosen; a configured store lacking one of its two
  functions is reported and used all the same.\<close>

definition check_store :: "cacheOptions option \<Rightarrow> console_message list" where
  "check_store cacheOptions =
     (case configured_store cacheOptions of
        None \<Rightarrow> []
      | Some store \<Rightarrow>
          if \<not> has_getItem store \<or> \<not> has_setItem store then [Error_cacheStore] else [])"

text \<open>
  Vue's \<^verbatim>\<open>watch\<close> option maps a property name to a handler function, the name of a
  method, an object with a handler and options, or an array of these. The handler the
  decorator pushes is the closure of lines 125 to 134, which captures the key, the
  options and the modifier.
\<close>

datatype handler =
    UserHandler nat
  | CacheHandler string "cacheOptions option" modifier

record watch_options =
  handler :: handler
  deep :: "bool option"
  immediate :: "bool option"

datatype watcher = WFunction handler | WMethod string | WObject watch_options

datatype watch_entry = WSingle watcher | WArray "watcher list"

record component_options =
  watch :: "(string \<rightharpoonup> watch_entry) option"
  created :: "hook option"

text \<open>
  The factory that \<^verbatim>\<open>Cache(cacheOptions)\<close> registers, run on the component's options.
  \<open>target_member\<close> says whether \<^verbatim>\<open>typeof target[key] !== "undefined"\<close>. The result is the
  error raised, if any, the options as the factory leaves them, and the console output.
  Calling \<^verbatim>\<open>push\<close> on a watcher that is a function or a string is a TypeError.
\<close>

definition Cache ::
  "json_parse \<Rightarrow> cacheOptions option \<Rightarrow> bool \<Rightarrow> string \<Rightarrow> component_options
     \<Rightarrow> error option \<times> component_options \<times> console_message list" where
  "Cache JSON_parse cacheOptions target_member key options =
     (if target_member then (None, options, [Warn_not_property key])
      else
        let watch0 = (case watch options of None \<Rightarrow> Map.empty | Some w \<Rightarrow> w);
            watch1 =
              (case watch0 key of
                 Some (WSingle (WObject wo)) \<Rightarrow> watch0(key \<mapsto> WArray [WObject wo])
               | None \<Rightarrow> watch0(key \<mapsto> WArray [])
               | _ \<Rightarrow> watch0);
            msgs = snd (select_modifier cacheOptions) @ check_store cacheOptions
        in
        case watch1 key of
          Some (WArray ws) \<Rightarrow>
            (None,
             options\<lparr>watch := Some (watch1(key \<mapsto> WArray (ws @
                  [WObject \<lparr>handler = CacheHandler key cacheOptions (fst (select_modifier cacheOptions)),
                            deep = Some True, immediate = Some False\<rparr>]))),
                created := Some (created_hook JSON_parse cacheOptions key (created options))\<rparr>,
             msgs)
        | _ \<Rightarrow> (Some TypeError, options\<lparr>watch := Some watch1\<rparr>, msgs))"

section \<open>The spec's key resolution, and sample inputs\<close>


text \<open>A component instance before its created hook runs: the tag of its vnode, its data
  properties with their defaults, what \<^verbatim>\<open>window.localStorage\<close> holds, and the next unused
  address. A root instance has no vnode.\<close>

definition component ::
  "string option \<Rightarrow> (string \<times> jsval) list \<Rightarrow> (string \<times> string) list \<Rightarrow> addr \<Rightarrow> state" where
  "component t props stored n =
     \<lparr>vnode = Some (VNode t), data = map_of props, set_calls = [], console = [],
      localStorage = map_of stored, next_addr = n\<rparr>"



text \<open>
  What \<^verbatim>\<open>JSON.parse\<close> does on the five texts the examples below store: \<^verbatim>\<open>null\<close>, \<^verbatim>\<open>5\<close>,
  \<^verbatim>\<open>{"b":9}\<close> and \<^verbatim>\<open>{"__proto__":5,"b":9}\<close>, which it parses (the key \<^verbatim>\<open>__proto__\<close> becomes a
  property of the object's own), and \<^verbatim>\<open>{\<close>, on which it throws. It stands for \<^verbatim>\<open>JSON.parse\<close>
  in the examples only, where no other text is parsed; the theorems hold for every
  parser.
\<close>

definition JSON_parse_sample :: json_parse where
  "JSON_parse_sample text n =
     (if text = ''null'' then Some (JNull, n)
      else if text = ''5'' then Some (JNum 5, n)
      else if text = ''{\"b\":9}'' then Some (JObj n [(''b'', JNum 9)], Suc n)
      else if text = ''{\"__proto__\":5,\"b\":9}''
        then Some (JObj n [(''__proto__'', JNum 5), (''b'', JNum 9)], Suc n)
      else None)"

section \<open>Facts about cloneDeep\<close>

text \<open>A clone is the value without its \<^verbatim>\<open>__proto__\<close> fields, up to addresses.\<close>

lemma cloneDeep_erase:
  "erase (fst (cloneDeep v n)) = erase (strip_proto v)"
  "erase_props (fst (cloneProps ps n)) = erase_props (strip_proto_props ps)"
proof (induction v n and ps n rule: cloneDeep_cloneProps.induct)
  case (9 p ps n)
  from 9(2)[OF prod.collapse] 9(1) show ?case by (simp add: split_beta)
qed (simp_all add: split_beta)


lemma cloneDeep_mono:
  "n \<le> snd (cloneDeep v n)"
  "n \<le> snd (cloneProps ps n)"
proof (induction v n and ps n rule: cloneDeep_cloneProps.induct)
  case (1 a ps n)
  then show ?case by (simp add: split_beta)
next
  case (9 p ps n)
  from 9(2)[OF prod.collapse] 9(1) show ?case by (simp add: split_beta)
qed simp_all

text \<open>Every object of a clone lives at an address that was unused before the call.\<close>

lemma cloneDeep_addrs:
  "addrs (fst (cloneDeep v n)) \<subseteq> {n..<snd (cloneDeep v n)}"
  "addrs_props (fst (cloneProps ps n)) \<subseteq> {n..<snd (cloneProps ps n)}"
proof (induction v n and ps n rule: cloneDeep_cloneProps.induct)
  case (1 a ps n)
  have "Suc n \<le> snd (cloneProps ps (Suc n))" by (rule cloneDeep_mono(2))
  with 1 show ?case by (auto simp add: split_beta)
next
  case (9 p ps n)
  let ?n1 = "snd (cloneDeep (snd p) n)"
  have a: "n \<le> ?n1" by (rule cloneDeep_mono(1))
  have b: "?n1 \<le> snd (cloneProps ps ?n1)" by (rule cloneDeep_mono(2))
  have i1: "addrs (fst (cloneDeep (snd p) n)) \<subseteq> {n..<?n1}"
    using 9(1) .
  have i2: "addrs_props (fst (cloneProps ps ?n1)) \<subseteq> {?n1..<snd (cloneProps ps ?n1)}"
    using 9(2)[OF prod.collapse] .
  have "addrs (fst (cloneDeep (snd p) n)) \<subseteq> {n..<snd (cloneProps ps ?n1)}"
    using i1 b by auto
  moreover have "addrs_props (fst (cloneProps ps ?n1)) \<subseteq> {n..<snd (cloneProps ps ?n1)}"
    using i2 a by auto
  ultimately show ?case by (simp add: split_beta)
qed simp_all

lemma cloneDeep_deep_equal: "deep_equal (fst (cloneDeep v n)) (strip_proto v)"
  by (simp add: deep_equal_def cloneDeep_erase)

lemma cloneDeep_no_alias:
  assumes "\<forall>a \<in> addrs v. a < n"
  shows "addrs (fst (cloneDeep v n)) \<inter> addrs v = {}"
  using assms cloneDeep_addrs(1)[of v n] by fastforce


section \<open>Facts about delete\<close>




text \<open>With no list given, or a falsy value, both purge functions return the clone.\<close>

lemma purge_absent_is_clone:
  "purgeExceptList v None n = Inr (cloneDeep v n)"
  "purgeOnlyList v None n = Inr (cloneDeep v n)"
  by (simp_all add: purgeExceptList_def purgeOnlyList_def split_beta)

lemma purge_falsy_is_clone:
  assumes "\<not> truthy v"
  shows "purgeExceptList v ex n = Inr (v, n)" and "purgeOnlyList v ex n = Inr (v, n)"
  using assms by (cases v; simp add: purgeExceptList_def purgeOnlyList_def)+

lemma addrs_props_delete: "addrs_props (AList.delete k ps) \<subseteq> addrs_props ps"
  by (induction ps) auto

lemma delete_prop_addrs: "delete_prop v k = Inr r \<Longrightarrow> addrs r \<subseteq> addrs v"
  using addrs_props_delete by (cases v) (fastforce split: if_splits)+

lemma delete_each_addrs: "delete_each es v = Inr r \<Longrightarrow> addrs r \<subseteq> addrs v"
proof (induction es arbitrary: v)
  case Nil
  then show ?case by simp
next
  case (Cons e es)
  then show ?case
    by (cases "delete_prop v e") (use delete_prop_addrs in fastforce)+
qed

lemma delete_where_addrs: "delete_where c ps v = Inr r \<Longrightarrow> addrs r \<subseteq> addrs v"
proof (induction ps arbitrary: v)
  case Nil
  then show ?case by simp
next
  case (Cons p ps)
  show ?case
  proof (cases "c p")
    case True
    with Cons show ?thesis
      by (cases "delete_prop v p") (use delete_prop_addrs in fastforce)+
  next
    case False
    with Cons show ?thesis by simp
  qed
qed

text \<open>Whenever a purge function returns, every object of its result is newly created.\<close>

lemma purge_result_fresh:
  "purgeExceptList v ex n = Inr (r, n') \<Longrightarrow> addrs r \<subseteq> {n..<n'}"
  "purgeOnlyList v ex n = Inr (r, n') \<Longrightarrow> addrs r \<subseteq> {n..<n'}"
proof -
  have c: "addrs (fst (cloneDeep v n)) \<subseteq> {n..<snd (cloneDeep v n)}"
    by (rule cloneDeep_addrs(1))
  show "purgeExceptList v ex n = Inr (r, n') \<Longrightarrow> addrs r \<subseteq> {n..<n'}"
    using c delete_each_addrs delete_prop_addrs
    by (fastforce simp: purgeExceptList_def split_beta
        split: if_splits option.splits names.splits sum.splits)
  show "purgeOnlyList v ex n = Inr (r, n') \<Longrightarrow> addrs r \<subseteq> {n..<n'}"
    using c delete_where_addrs
    by (fastforce simp: purgeOnlyList_def split_beta
        split: if_splits option.splits names.splits sum.splits)
qed

section \<open>The value filter\<close>




text \<open>
  C10. The claim is that both purge functions return a deep clone for every input value.
  purgeOnlyList does not return for the string \<^verbatim>\<open>"abc"\<close> with \<^verbatim>\<open>only: "x"\<close>: the string is
  truthy, its own property names are \<^verbatim>\<open>"0"\<close>, \<^verbatim>\<open>"1"\<close>, \<^verbatim>\<open>"2"\<close> and \<^verbatim>\<open>"length"\<close>, none is the
  listed name, and deleting the first of them raises a TypeError. Nor does
  purgeExceptList for the same string with \<^verbatim>\<open>except: "length"\<close>.
\<close>

theorem purgeOnlyList_string_TypeError:
  "purgeOnlyList (JStr ''abc'') (Some (Single ''x'')) 0 = Inl TypeError
   \<and> purgeExceptList (JStr ''abc'') (Some (Single ''length'')) 0 = Inl TypeError"
  by (simp add: purgeOnlyList_def purgeExceptList_def string_of_nat.simps digit_char_def upt_rec)

text \<open>
  C2, as the claim states it, fails: with no options the modifier applied to an object
  returns an object that is the same reference as its input.
\<close>

theorem modifier_identity_same_reference:
  "same_reference
     (fst (projr (apply_modifier (fst (select_modifier None)) (JObj 0 [(''a'', JNum 1)]) 1)))
     (JObj 0 [(''a'', JNum 1)])"
  by simp

text \<open>
  C2, amended. When no filter is configured (no options at all, or neither a truthy
  \<^verbatim>\<open>except\<close> nor a truthy \<^verbatim>\<open>only\<close>), the modifier returns the very value it is given:
  the same reference, nothing copied, no object created.
\<close>

theorem modifier_without_filter:
  assumes "cacheOptions = None \<or>
           (\<exists>options. cacheOptions = Some options \<and> \<not> names_truthy (except options)
              \<and> \<not> names_truthy (only options))"
  shows "apply_modifier (fst (select_modifier cacheOptions)) v n = Inr (v, n)"
  using assms by auto

theorem modifier_without_filter_witness:
  "apply_modifier (fst (select_modifier None)) (JObj 0 [(''a'', JNum 1)]) 1
     = Inr (JObj 0 [(''a'', JNum 1)], 1)"
  using modifier_without_filter[of None "JObj 0 [(''a'', JNum 1)]" 1] by simp



section \<open>Facts about makeKey\<close>









lemma truthy_cacheKey_None_iff:
  "truthy_cacheKey options = None \<longleftrightarrow>
     options = None \<or> (\<exists>opts. options = Some opts \<and> (cacheKey opts = None \<or> cacheKey opts = Some []))"
  by (cases options) (auto split: option.splits)




section \<open>The restore at creation\<close>

text \<open>Assigning a property gives the key the value and leaves the other keys as they
  are; only an assignment to \<^verbatim>\<open>__proto__\<close> can change the prototype.\<close>

lemma insert_index_map_of:
  "k \<notin> fst ` set ps \<Longrightarrow> map_of (insert_index k v ps) = (map_of ps)(k \<mapsto> v)"
  by (induction ps) (auto simp: fun_eq_iff)

lemma insert_index_keys: "fst ` set (insert_index k v ps) = insert k (fst ` set ps)"
  by (induction ps) auto

lemma put_prop_map_of: "map_of (put_prop k v ps) = (map_of ps)(k \<mapsto> v)"
proof -
  have "map_of (ps @ [(k, v)]) = (map_of ps)(k \<mapsto> v)" if "k \<notin> fst ` set ps"
  proof
    fix j
    from that have "map_of ps k = None" by (simp add: map_of_eq_None_iff)
    then show "map_of (ps @ [(k, v)]) j = ((map_of ps)(k \<mapsto> v)) j"
      by (auto simp: map_add_def split: option.splits)
  qed
  then show ?thesis
    by (auto simp: put_prop_def AList.update_conv' insert_index_map_of)
qed

lemma put_prop_keys: "fst ` set (put_prop k v ps) = insert k (fst ` set ps)"
  by (auto simp: put_prop_def AList.dom_update insert_index_keys)

lemma assign_prop_other:
  assumes "k \<noteq> ''__proto__''"
  shows "map_of (snd (assign_prop j v t)) k
           = (if j = k then Some v else map_of (snd t) k)"
  using assms by (cases t) (auto simp: put_prop_map_of split: jsval.splits)

lemma assign_prop_fst:
  "j \<noteq> ''__proto__'' \<Longrightarrow> fst (assign_prop j v t) = fst t"
  by (cases t) simp

lemma assign_prop_no_proto:
  assumes "''__proto__'' \<notin> fst ` set (snd t)"
    and "j \<noteq> ''__proto__'' \<or> reaches_proto_setter (fst t)"
  shows "''__proto__'' \<notin> fst ` set (snd (assign_prop j v t))"
  using assms by (cases t) (auto simp: put_prop_keys split: jsval.splits)

lemma fold_assign_other:
  assumes "k \<noteq> ''__proto__''" and "distinct (map fst xs)"
  shows "map_of (snd (fold (\<lambda>p t. assign_prop (fst p) (snd p) t) xs t)) k
           = (map_of (snd t) ++ map_of xs) k"
  using assms(2)
proof (induction xs arbitrary: t)
  case Nil
  then show ?case by simp
next
  case (Cons x xs)
  have nd: "map_of xs (fst x) = None"
    using Cons.prems by (simp add: map_of_eq_None_iff)
  have "map_of (snd (fold (\<lambda>p t. assign_prop (fst p) (snd p) t) (x # xs) t)) k
      = (map_of (snd (assign_prop (fst x) (snd x) t)) ++ map_of xs) k"
    using Cons.IH[of "assign_prop (fst x) (snd x) t"] Cons.prems by simp
  also have "\<dots> = (map_of (snd t) ++ map_of (x # xs)) k"
    using nd assign_prop_other[OF assms(1), of "fst x" "snd x" t]
    by (cases x) (auto simp: map_add_def split: option.splits)
  finally show ?case .
qed

lemma fold_assign_fst:
  assumes "''__proto__'' \<notin> fst ` set xs"
  shows "fst (fold (\<lambda>p t. assign_prop (fst p) (snd p) t) xs t) = fst t"
  using assms
proof (induction xs arbitrary: t)
  case Nil
  then show ?case by simp
next
  case (Cons x xs)
  then show ?case using assign_prop_fst[of "fst x" "snd x" t] by auto
qed

lemma fold_assign_no_proto_key:
  assumes "''__proto__'' \<notin> fst ` set (snd t)" and "''__proto__'' \<notin> fst ` set xs"
  shows "''__proto__'' \<notin> fst ` set (snd (fold (\<lambda>p t. assign_prop (fst p) (snd p) t) xs t))"
  using assms
proof (induction xs arbitrary: t)
  case Nil
  then show ?case by simp
next
  case (Cons x xs)
  have "''__proto__'' \<notin> fst ` set (snd (assign_prop (fst x) (snd x) t))"
    using Cons.prems by (intro assign_prop_no_proto) auto
  then show ?case using Cons.IH[of "assign_prop (fst x) (snd x) t"] Cons.prems by auto
qed

lemma fold_assign_no_proto:
  assumes "''__proto__'' \<notin> fst ` set (snd t)" and "reaches_proto_setter (fst t)"
    and "distinct (map fst xs)"
  shows "''__proto__'' \<notin> fst ` set (snd (fold (\<lambda>p t. assign_prop (fst p) (snd p) t) xs t))"
  using assms
proof (induction xs arbitrary: t)
  case Nil
  then show ?case by simp
next
  case (Cons x xs)
  have step: "''__proto__'' \<notin> fst ` set (snd (assign_prop (fst x) (snd x) t))"
    using Cons.prems(1,2) by (intro assign_prop_no_proto) auto
  show ?case
  proof (cases "fst x = ''__proto__''")
    case True
    then have "''__proto__'' \<notin> fst ` set xs" using Cons.prems(3) by auto
    with step show ?thesis
      using fold_assign_no_proto_key[of "assign_prop (fst x) (snd x) t" xs] by simp
  next
    case False
    then have "reaches_proto_setter (fst (assign_prop (fst x) (snd x) t))"
      using Cons.prems(2) assign_prop_fst[of "fst x" "snd x" t] by simp
    with step show ?thesis
      using Cons.IH[of "assign_prop (fst x) (snd x) t"] Cons.prems(3) by simp
  qed
qed

text \<open>The merge of two objects, the first without a field \<^verbatim>\<open>__proto__\<close>: on every other key
  the second object's field wins and the first one's fills in, and no field \<^verbatim>\<open>__proto__\<close>
  is created.\<close>

lemma merge_objects:
  assumes "distinct (map fst dps)" and "distinct (map fst sps)"
    and "''__proto__'' \<notin> fst ` set dps"
  shows "\<exists>ps. merge (JObj da dps) (JObj sa sps) n = (JObj n ps, Suc n)
           \<and> (\<forall>k. k \<noteq> ''__proto__'' \<longrightarrow> map_of ps k = (map_of dps ++ map_of sps) k)
           \<and> ''__proto__'' \<notin> fst ` set ps"
proof -
  let ?f = "\<lambda>p t. assign_prop (fst p) (snd p) t"
  let ?t1 = "fold ?f dps (ObjectPrototype, [])"
  let ?t2 = "fold ?f sps ?t1"
  have m: "merge (JObj da dps) (JObj sa sps) n = (JObj n (snd ?t2), Suc n)"
    by (simp add: merge_def object_assign_def)
  have v: "map_of (snd ?t2) k = (map_of dps ++ map_of sps) k" if "k \<noteq> ''__proto__''" for k
    using fold_assign_other[OF that assms(2), of ?t1]
      fold_assign_other[OF that assms(1), of "(ObjectPrototype, [])"]
    by (simp add: map_add_def split: option.splits)
  have e: "fst (ObjectPrototype, []) = ObjectPrototype"
    and i: "''__proto__'' \<notin> fst ` set (snd (ObjectPrototype, []::(string \<times> jsval) list))"
    by simp_all
  have a: "fst ?t1 = ObjectPrototype"
    using fold_assign_fst[OF assms(3), of "(ObjectPrototype, [])"] e by (rule trans)
  have b: "''__proto__'' \<notin> fst ` set (snd ?t1)"
    by (rule fold_assign_no_proto_key[OF i assms(3)])
  have p: "''__proto__'' \<notin> fst ` set (snd ?t2)"
  proof (rule fold_assign_no_proto[OF b _ assms(2)])
    show "reaches_proto_setter (fst ?t1)" by (simp only: a reaches_proto_setter.simps)
  qed
  from m v p show ?thesis by blast
qed

lemma merge_scalar:
  assumes "distinct (map fst dps)" and "own_enumerable b = []"
    and "''__proto__'' \<notin> fst ` set dps"
  shows "\<exists>ps. merge (JObj da dps) b n = (JObj n ps, Suc n) \<and> map_of ps = map_of dps"
proof -
  let ?f = "\<lambda>p t. assign_prop (fst p) (snd p) t"
  let ?t1 = "fold ?f dps (ObjectPrototype, [])"
  have m: "merge (JObj da dps) b n = (JObj n (snd ?t1), Suc n)"
    using assms(2) by (simp add: merge_def object_assign_def)
  have i: "''__proto__'' \<notin> fst ` set (snd (ObjectPrototype, []::(string \<times> jsval) list))"
    by simp
  have b: "''__proto__'' \<notin> fst ` set (snd ?t1)"
    by (rule fold_assign_no_proto_key[OF i assms(3)])
  have "map_of (snd ?t1) k = map_of dps k" for k
  proof (cases "k = ''__proto__''")
    case True
    have "map_of (snd ?t1) ''__proto__'' = None"
      by (rule map_of_eq_None_iff[THEN iffD2]) (rule b)
    moreover have "map_of dps ''__proto__'' = None"
      by (rule map_of_eq_None_iff[THEN iffD2]) (rule assms(3))
    ultimately show ?thesis unfolding True by (rule trans[OF _ sym])
  next
    case False
    then show ?thesis
      using fold_assign_other[OF False assms(1), of "(ObjectPrototype, [])"] by simp
  qed
  then have "map_of (snd ?t1) = map_of dps" by (rule ext)
  with m show ?thesis by blast
qed

text \<open>What \<^verbatim>\<open>$set\<close> changes.\<close>

lemma getItem_console [simp]:
  "getItem (this\<lparr>console := c\<rparr>) cacheOptions k = getItem this cacheOptions k"
  by (simp add: getItem_def split: option.splits)

lemma declared_updates [simp]:
  "declared (this\<lparr>console := c\<rparr>) key = declared this key"
  "declared (this\<lparr>next_addr := n\<rparr>) key = declared this key"
  by (simp_all add: declared_def)

lemma get_field_updates [simp]:
  "get_field (this\<lparr>console := c\<rparr>) key = get_field this key"
  "get_field (this\<lparr>next_addr := n\<rparr>) key = get_field this key"
  by (simp_all add: get_field_def)

lemma set_field_calls [simp]: "set_calls (set_field this key v) = set_calls this @ [(key, v)]"
  by (simp add: set_field_def)

lemma set_field_next_addr [simp]: "next_addr (set_field this key v) = next_addr this"
  by (simp add: set_field_def)

lemma set_field_declared: "declared this key \<Longrightarrow> get_field (set_field this key v) key = v"
  by (simp add: get_field_def set_field_def)

lemma set_field_undeclared: "\<not> declared this key \<Longrightarrow> data (set_field this key v) = data this"
  by (simp add: set_field_def)

lemma declared_object:
  "get_field this key = JObj a ps \<Longrightarrow> declared this key \<longleftrightarrow> key \<notin> set object_prototype_keys"
  by (auto simp: get_field_def declared_def split: option.splits)

text \<open>
  C5, amended. When the default is an object without a field \<^verbatim>\<open>__proto__\<close> and the stored
  text parses to an object (each with its keys once), the restore calls \<^verbatim>\<open>$set\<close> with a
  new object, which becomes the value of the property (for a property whose name is not
  one of \<^verbatim>\<open>Object.prototype\<close>). Its key set is the union of the two key sets without
  \<^verbatim>\<open>__proto__\<close>; on every other key the stored value has, its field wins, and the
  default's fields fill in the rest.
\<close>

theorem restore_merges_objects:
  assumes "get_field this key = JObj da dps" and "distinct (map fst dps)"
    and "''__proto__'' \<notin> fst ` set dps"
    and "makeKey this key cacheOptions = Inr (k, msgs)"
    and "getItem this cacheOptions k = Inr (Some text)"
    and "JSON_parse text (next_addr this) = Some (JObj sa sps, n1)"
    and "distinct (map fst sps)"
  shows "\<exists>this' ps. restore_step JSON_parse cacheOptions key this = Inr this'
           \<and> set_calls this' = set_calls this @ [(key, JObj n1 ps)]
           \<and> (key \<notin> set object_prototype_keys \<longrightarrow> get_field this' key = JObj n1 ps)
           \<and> fst ` set ps = (fst ` set dps \<union> fst ` set sps) - {''__proto__''}
           \<and> (\<forall>j. j \<noteq> ''__proto__'' \<longrightarrow>
                 map_of ps j = (case map_of sps j of Some v \<Rightarrow> Some v | None \<Rightarrow> map_of dps j))"
proof -
  obtain ps where m: "merge (JObj da dps) (JObj sa sps) n1 = (JObj n1 ps, Suc n1)"
    and v: "\<forall>j. j \<noteq> ''__proto__'' \<longrightarrow> map_of ps j = (map_of dps ++ map_of sps) j"
    and p: "''__proto__'' \<notin> fst ` set ps"
    using merge_objects[OF assms(2) assms(7) assms(3)] by blast
  let ?this2 = "this\<lparr>console := console this @ msgs, next_addr := n1\<rparr>"
  let ?this' = "set_field (?this2\<lparr>next_addr := Suc n1\<rparr>) key (JObj n1 ps)"
  have r: "restore_step JSON_parse cacheOptions key this = Inr ?this'"
    using assms(1,4,5,6) m by (simp add: restore_step_def Let_def simpleTypes_def)
  have vals: "\<forall>j. j \<noteq> ''__proto__'' \<longrightarrow>
      map_of ps j = (case map_of sps j of Some v \<Rightarrow> Some v | None \<Rightarrow> map_of dps j)"
    using v by (simp add: map_add_def)
  have keys: "fst ` set ps = (fst ` set dps \<union> fst ` set sps) - {''__proto__''}"
  proof -
    have "j \<in> fst ` set ps \<longleftrightarrow> j \<in> fst ` set dps \<union> fst ` set sps" if "j \<noteq> ''__proto__''" for j
    proof -
      have "map_of ps j = None \<longleftrightarrow> map_of dps j = None \<and> map_of sps j = None"
        using v that by (auto simp: map_add_def split: option.splits)
      then show ?thesis by (auto simp: map_of_eq_None_iff)
    qed
    then have "fst ` set ps - {''__proto__''} = (fst ` set dps \<union> fst ` set sps) - {''__proto__''}"
      by blast
    moreover have "fst ` set ps - {''__proto__''} = fst ` set ps"
      using p by blast
    ultimately show ?thesis by simp
  qed
  have "key \<notin> set object_prototype_keys \<longrightarrow> get_field ?this' key = JObj n1 ps"
    using declared_object[OF assms(1)] by (simp add: set_field_declared)
  with r vals keys show ?thesis by (intro exI[of _ ?this'] exI[of _ ps]) simp
qed

text \<open>Stored \<^verbatim>\<open>{"b":9}\<close> under \<^verbatim>\<open>Table[filter]\<close>, default \<^verbatim>\<open>{a:1, b:2}\<close>: the property becomes
  \<^verbatim>\<open>{a:1, b:9}\<close>.\<close>

theorem restore_merges_objects_witness:
  "restore_step JSON_parse_sample None ''filter''
       (component (Some ''vue-component-1-Table'')
          [(''filter'', JObj 0 [(''a'', JNum 1), (''b'', JNum 2)])]
          [(''Table[filter]'', ''{\"b\":9}'')] 1)
     = Inr (set_field
         ((component (Some ''vue-component-1-Table'')
            [(''filter'', JObj 0 [(''a'', JNum 1), (''b'', JNum 2)])]
            [(''Table[filter]'', ''{\"b\":9}'')] 1)\<lparr>next_addr := 3\<rparr>)
         ''filter'' (JObj 2 [(''a'', JNum 1), (''b'', JNum 9)]))
   \<and> get_field
        (set_field
          ((component (Some ''vue-component-1-Table'')
             [(''filter'', JObj 0 [(''a'', JNum 1), (''b'', JNum 2)])]
             [(''Table[filter]'', ''{\"b\":9}'')] 1)\<lparr>next_addr := 3\<rparr>)
          ''filter'' (JObj 2 [(''a'', JNum 1), (''b'', JNum 9)]))
        ''filter''
       = JObj 2 [(''a'', JNum 1), (''b'', JNum 9)]"
  using restore_merges_objects[of
      "component (Some ''vue-component-1-Table'')
          [(''filter'', JObj 0 [(''a'', JNum 1), (''b'', JNum 2)])]
          [(''Table[filter]'', ''{\"b\":9}'')] 1"
      "''filter''" 0 "[(''a'', JNum 1), (''b'', JNum 2)]" None "''Table[filter]''" "[]"
      "''{\"b\":9}''" JSON_parse_sample 1 "[(''b'', JNum 9)]" 2]
  by (simp add: restore_step_def component_def get_field_def getItem_def makeKey_def
      match_at_start_def is_digit_def JSON_parse_sample_def simpleTypes_def merge_def
      object_assign_def set_field_def declared_def object_prototype_keys_def put_prop_def
      is_array_index_def Let_def numeral_2_eq_2 numeral_3_eq_3)

text \<open>
  C5, as the claim states it, fails: the stored text \<^verbatim>\<open>{"__proto__":5,"b":9}\<close> parses to
  an object with the keys \<^verbatim>\<open>__proto__\<close> and \<^verbatim>\<open>b\<close>, the default is \<^verbatim>\<open>{a:1}\<close>, and the property
  is set to \<^verbatim>\<open>{a:1, b:9}\<close>, whose key set is not the union: \<^verbatim>\<open>Object.assign\<close> assigns
  \<^verbatim>\<open>__proto__\<close> through the setter of \<^verbatim>\<open>Object.prototype\<close>, which creates no property.
\<close>

theorem restore_drops_stored_proto_key:
  "get_field
     (projr (restore_step JSON_parse_sample None ''filter''
        (component (Some ''vue-component-1-Table'') [(''filter'', JObj 0 [(''a'', JNum 1)])]
           [(''Table[filter]'', ''{\"__proto__\":5,\"b\":9}'')] 1)))
     ''filter'' = JObj 2 [(''a'', JNum 1), (''b'', JNum 9)]
   \<and> JSON_parse_sample ''{\"__proto__\":5,\"b\":9}'' 1
       = Some (JObj 1 [(''__proto__'', JNum 5), (''b'', JNum 9)], 2)"
  by (simp add: restore_step_def component_def get_field_def getItem_def makeKey_def
      match_at_start_def is_digit_def JSON_parse_sample_def simpleTypes_def merge_def
      object_assign_def set_field_def declared_def object_prototype_keys_def put_prop_def
      is_array_index_def Let_def numeral_2_eq_2 numeral_3_eq_3)

text \<open>
  C1, as the claim states it, fails: the stored text \<^verbatim>\<open>5\<close> deserializes to the scalar 5,
  the default is \<^verbatim>\<open>{a:1}\<close>, and the property is set to a copy of \<^verbatim>\<open>{a:1}\<close>, not to 5.
\<close>

theorem restore_object_default_keeps_default:
  "get_field
     (projr (restore_step JSON_parse_sample None ''filter''
        (component (Some ''vue-component-1-Table'') [(''filter'', JObj 0 [(''a'', JNum 1)])]
           [(''Table[filter]'', ''5'')] 1)))
     ''filter'' = JObj 1 [(''a'', JNum 1)]
   \<and> JSON_parse_sample ''5'' 1 = Some (JNum 5, 1)
   \<and> JObj 1 [(''a'', JNum 1)] \<noteq> JNum 5"
  by (simp add: restore_step_def component_def get_field_def getItem_def makeKey_def
      match_at_start_def is_digit_def JSON_parse_sample_def simpleTypes_def merge_def
      object_assign_def set_field_def declared_def object_prototype_keys_def put_prop_def
      is_array_index_def Let_def numeral_2_eq_2 numeral_3_eq_3)

text \<open>
  C1, amended. The test is on the type of the default, the value the property has when
  the hook runs, not on the stored value. If the default is a scalar (its typeof is
  undefined, number, string or boolean), \<^verbatim>\<open>$set\<close> is called once, with the deserialized
  stored value when there is one and with the default when the stored value is null or
  absent; nothing is merged and no object is created; a property the instance declares
  takes that value, and for a property it does not declare, which reads as undefined,
  nothing changes. If the default is null and nothing is stored, null is set. If the
  default is an object without a field \<^verbatim>\<open>__proto__\<close> and the stored value is a number or a
  boolean, \<^verbatim>\<open>$set\<close> is called with a new object that has the default's fields: stored 5
  with default \<^verbatim>\<open>{a:1}\<close> yields \<^verbatim>\<open>{a:1}\<close>.
\<close>

theorem restore_by_default_type:
  assumes "makeKey this key cacheOptions = Inr (k, msgs)"
    and "getItem this cacheOptions k = Inr raw"
    and "JSON_parse (case raw of None \<Rightarrow> ''null'' | Some text \<Rightarrow> text) (next_addr this)
           = Some (parsed, n1)"
  shows "\<exists>this'. restore_step JSON_parse cacheOptions key this = Inr this'
     \<and> (js_typeof (get_field this key) \<in> set simpleTypes \<longrightarrow>
          set_calls this' = set_calls this
            @ [(key, if parsed = JNull \<or> parsed = JUndefined then get_field this key else parsed)]
          \<and> next_addr this' = n1
          \<and> (declared this key \<longrightarrow>
                get_field this' key
                  = (if parsed = JNull \<or> parsed = JUndefined then get_field this key else parsed))
          \<and> (\<not> declared this key \<longrightarrow> data this' = data this))
     \<and> (get_field this key = JNull \<and> (parsed = JNull \<or> parsed = JUndefined) \<longrightarrow>
          set_calls this' = set_calls this @ [(key, JNull)]
          \<and> get_field this' key = JNull \<and> next_addr this' = n1)
     \<and> (\<forall>a dps. get_field this key = JObj a dps \<and> distinct (map fst dps)
            \<and> ''__proto__'' \<notin> fst ` set dps
            \<and> js_typeof parsed \<in> {''number'', ''boolean''} \<longrightarrow>
          (\<exists>ps. set_calls this' = set_calls this @ [(key, JObj n1 ps)]
             \<and> (key \<notin> set object_prototype_keys \<longrightarrow> get_field this' key = JObj n1 ps)
             \<and> map_of ps = map_of dps))"
proof -
  let ?v = "if parsed = JNull \<or> parsed = JUndefined then get_field this key else parsed"
  let ?this2 = "this\<lparr>console := console this @ msgs, next_addr := n1\<rparr>"
  show ?thesis
  proof (cases "js_typeof (get_field this key) \<in> set simpleTypes \<or> ?v = JNull")
    case True
    have r: "restore_step JSON_parse cacheOptions key this = Inr (set_field ?this2 key ?v)"
      using assms True by (simp add: restore_step_def Let_def)
    have notobj: "\<forall>a dps. get_field this key \<noteq> JObj a dps \<or> js_typeof parsed \<notin> {''number'', ''boolean''}"
      using True by (cases parsed) (auto simp: simpleTypes_def)
    have nullcase: "get_field (set_field ?this2 key JNull) key = JNull" if "get_field this key = JNull"
      using that by (cases "declared this key") (simp_all add: set_field_declared get_field_def set_field_undeclared set_field_def)
    show ?thesis
      using r notobj nullcase
      by (intro exI[of _ "set_field ?this2 key ?v"])
        (auto simp: set_field_declared set_field_undeclared simpleTypes_def)
  next
    case False
    show ?thesis
    proof (cases "get_field this key")
      case (JObj a dps)
      obtain merged where mg: "merge (JObj a dps) ?v n1 = (merged, Suc n1)"
        by (simp add: merge_def)
      have r: "restore_step JSON_parse cacheOptions key this
          = Inr (set_field (?this2\<lparr>next_addr := Suc n1\<rparr>) key merged)"
        using assms False JObj mg by (auto simp add: restore_step_def Let_def split: if_splits)
      have third: "\<exists>ps. merged = JObj n1 ps \<and> map_of ps = map_of dps"
        if "distinct (map fst dps)" "js_typeof parsed \<in> {''number'', ''boolean''}"
          "''__proto__'' \<notin> fst ` set dps"
      proof -
        have "own_enumerable parsed = []" and "?v = parsed"
          using that(2) by (cases parsed; simp)+
        with merge_scalar[OF that(1) _ that(3), of parsed a n1] mg show ?thesis by auto
      qed
      show ?thesis
        using r JObj third declared_object[OF JObj]
        by (intro exI[of _ "set_field (?this2\<lparr>next_addr := Suc n1\<rparr>) key merged"])
          (auto simp: set_field_declared simpleTypes_def)
    next
      case JNull
      then have nn: "parsed \<noteq> JNull" "parsed \<noteq> JUndefined"
        using False by (auto split: if_splits)
      obtain merged where mg: "merge JNull parsed (Suc n1) = (merged, Suc (Suc n1))"
        by (simp add: merge_def)
      let ?this3 = "set_field
          (?this2\<lparr>console := console ?this2 @ [Warn_no_value key], next_addr := Suc n1\<rparr>)
          key (JObj n1 [])"
      have "restore_step JSON_parse cacheOptions key this
          = Inr (set_field (?this3\<lparr>next_addr := Suc (Suc n1)\<rparr>) key merged)"
        using assms False JNull nn mg by (simp add: restore_step_def Let_def)
      then show ?thesis using JNull nn by (auto simp: simpleTypes_def)
    qed (use False in \<open>auto simp: simpleTypes_def\<close>)
  qed
qed

text \<open>Stored \<^verbatim>\<open>5\<close> under \<^verbatim>\<open>Table[page]\<close>: with the declared default 0 the property
  becomes 5; undeclared, it stays undefined.\<close>

theorem restore_by_default_type_witness:
  "restore_step JSON_parse_sample None ''page''
       (component (Some ''vue-component-1-Table'') [(''page'', JNum 0)] [(''Table[page]'', ''5'')] 1)
     = Inr (set_field
         (component (Some ''vue-component-1-Table'') [(''page'', JNum 0)] [(''Table[page]'', ''5'')] 1)
         ''page'' (JNum 5))
   \<and> get_field
        (set_field
          (component (Some ''vue-component-1-Table'') [(''page'', JNum 0)] [(''Table[page]'', ''5'')] 1)
          ''page'' (JNum 5)) ''page'' = JNum 5
   \<and> get_field
        (projr (restore_step JSON_parse_sample None ''page''
          (component (Some ''vue-component-1-Table'') [] [(''Table[page]'', ''5'')] 1)))
        ''page'' = JUndefined"
  using restore_by_default_type[of
      "component (Some ''vue-component-1-Table'') [(''page'', JNum 0)] [(''Table[page]'', ''5'')] 1"
      "''page''" None "''Table[page]''" "[]" "Some ''5''" JSON_parse_sample "JNum 5" 1]
    restore_by_default_type[of
      "component (Some ''vue-component-1-Table'') [] [(''Table[page]'', ''5'')] 1"
      "''page''" None "''Table[page]''" "[]" "Some ''5''" JSON_parse_sample "JNum 5" 1]
  by (simp add: restore_step_def component_def get_field_def getItem_def makeKey_def
      match_at_start_def is_digit_def JSON_parse_sample_def simpleTypes_def set_field_def
      declared_def object_prototype_keys_def Let_def)

text \<open>
  C3, as the claim states it, fails: with the text \<^verbatim>\<open>{\<close> stored, the restore raises the
  SyntaxError of \<^verbatim>\<open>JSON.parse\<close>.
\<close>

theorem restore_invalid_json_raises_example:
  "restore_step JSON_parse_sample None ''filter''
       (component (Some ''vue-component-1-Table'') [(''filter'', JObj 0 [(''a'', JNum 1)])]
          [(''Table[filter]'', ''{'')] 1)
     = Inl (SyntaxError,
         component (Some ''vue-component-1-Table'') [(''filter'', JObj 0 [(''a'', JNum 1)])]
           [(''Table[filter]'', ''{'')] 1)"
  by (simp add: restore_step_def component_def get_field_def getItem_def makeKey_def
      match_at_start_def is_digit_def JSON_parse_sample_def Let_def)

text \<open>
  C3, amended. When the key resolves and the stored text is one \<^verbatim>\<open>JSON.parse\<close> throws on,
  the restore raises that SyntaxError and so does the created hook, to its caller:
  nothing catches it. No property is set, so the property keeps its default, and the
  created hook that was registered before is not run.
\<close>

theorem invalid_json_raises:
  assumes "makeKey this key cacheOptions = Inr (k, msgs)"
    and "getItem this cacheOptions k = Inr (Some text)"
    and "JSON_parse text (next_addr this) = None"
  shows "\<exists>this'. restore_step JSON_parse cacheOptions key this = Inl (SyntaxError, this')
           \<and> created_hook JSON_parse cacheOptions key old this = Inl (SyntaxError, this')
           \<and> data this' = data this \<and> set_calls this' = set_calls this"
  using assms by (simp add: created_hook_def restore_step_def Let_def)

text \<open>The text \<^verbatim>\<open>{\<close> stored under \<^verbatim>\<open>Table[filter]\<close>.\<close>

theorem invalid_json_raises_witness:
  "created_hook JSON_parse_sample None ''filter'' None
       (component (Some ''vue-component-1-Table'') [(''filter'', JObj 0 [(''a'', JNum 1)])]
          [(''Table[filter]'', ''{'')] 1)
     = Inl (SyntaxError,
         component (Some ''vue-component-1-Table'') [(''filter'', JObj 0 [(''a'', JNum 1)])]
           [(''Table[filter]'', ''{'')] 1)"
  using invalid_json_raises[of
      "component (Some ''vue-component-1-Table'') [(''filter'', JObj 0 [(''a'', JNum 1)])]
          [(''Table[filter]'', ''{'')] 1"
      "''filter''" None "''Table[filter]''" "[]" "''{''" JSON_parse_sample None]
  by (simp add: created_hook_def restore_step_def component_def get_field_def getItem_def
      makeKey_def match_at_start_def is_digit_def JSON_parse_sample_def Let_def)

section \<open>Registering the watcher\<close>

text \<open>A watcher given as an object, or a list of watchers, is kept: the decorator's
  watcher is appended after it, and the watchers of other properties are untouched.\<close>

lemma Cache_keeps_existing_watchers:
  assumes "watch options = Some w"
  shows "w key = Some (WArray ws) \<Longrightarrow>
           \<exists>w' h. fst (Cache JSON_parse cacheOptions False key options) = None
             \<and> watch (fst (snd (Cache JSON_parse cacheOptions False key options))) = Some w'
             \<and> w' key = Some (WArray (ws @ [WObject \<lparr>handler = h, deep = Some True, immediate = Some False\<rparr>]))
             \<and> (\<forall>k. k \<noteq> key \<longrightarrow> w' k = w k)"
    and "w key = Some (WSingle (WObject wo)) \<Longrightarrow>
           \<exists>w' h. fst (Cache JSON_parse cacheOptions False key options) = None
             \<and> watch (fst (snd (Cache JSON_parse cacheOptions False key options))) = Some w'
             \<and> w' key = Some (WArray [WObject wo, WObject \<lparr>handler = h, deep = Some True, immediate = Some False\<rparr>])
             \<and> (\<forall>k. k \<noteq> key \<longrightarrow> w' k = w k)"
  using assms by (simp_all add: Cache_def Let_def)

text \<open>
  C9. The claim is that the cache handler is appended for every component that already
  declares a watcher for the property. Vue also takes a function or the name of a
  method as a watcher; for these the factory neither wraps the watcher in an array nor
  creates one, calls \<^verbatim>\<open>push\<close> on the function or the string, and raises a TypeError:
  nothing is appended.
\<close>

theorem Cache_function_watcher_raises:
  "fst (Cache JSON_parse cacheOptions False key
          \<lparr>watch = Some (w(key \<mapsto> WSingle (WFunction h))), created = old\<rparr>) = Some TypeError
   \<and> fst (Cache JSON_parse cacheOptions False key
          \<lparr>watch = Some (w(key \<mapsto> WSingle (WMethod m))), created = old\<rparr>) = Some TypeError"
  by (simp add: Cache_def Let_def)

text \<open>
  C4. The claim is that the watcher is deep or shallow as the \<^verbatim>\<open>deep\<close> option says. With
  \<^verbatim>\<open>deep: false\<close> passed, on a component without watchers, the watcher the decorator
  registers has \<^verbatim>\<open>deep: true\<close>.
\<close>

theorem Cache_watcher_always_deep:
  "watch (fst (snd (Cache JSON_parse (Some (options\<lparr>readme_deep := Some False\<rparr>)) False key
            \<lparr>watch = None, created = None\<rparr>)))
     = Some [key \<mapsto> WArray [WObject
         \<lparr>handler = CacheHandler key (Some (options\<lparr>readme_deep := Some False\<rparr>))
                      (fst (select_modifier (Some (options\<lparr>readme_deep := Some False\<rparr>)))),
          deep = Some True, immediate = Some False\<rparr>]]"
  by (simp add: Cache_def Let_def del: select_modifier.simps)

end
